theory Spec2Isabelle
  imports Complex_Main "HOL-Library.Word" "HOL-Library.Monad_Syntax"
begin

section \<open>The Lorenz integrator and its bounded trail\<close>

text \<open>
  The integrator of \<^verbatim>\<open>lorenz.go\<close> works on \<^verbatim>\<open>float64\<close>. Its arithmetic is kept
  abstract here: the coordinate type is any type with \<open>+\<close>, \<open>-\<close> and \<open>*\<close>, and no law of
  these operations is assumed, so every statement below holds for rounded IEEE operations as
  well as for exact reals.

  The fields \<^verbatim>\<open>x\<close>, \<^verbatim>\<open>y\<close>, \<^verbatim>\<open>z\<close> of the Go structs are called \<open>sys_x\<close>, \<open>sys_y\<close>, \<open>sys_z\<close>
  (\<open>att_x\<close>, ... for \<^verbatim>\<open>LorenzAttractor\<close>), since a record field is a constant of the theory.
\<close>

record 'a Point3D =
  X :: 'a
  Y :: 'a
  Z :: 'a

record 'a LorenzSystem =
  sigma :: 'a
  rho :: 'a
  beta :: 'a
  dt :: 'a
  sys_x :: 'a
  sys_y :: 'a
  sys_z :: 'a
  trail :: "'a Point3D list"
  maxTrailLength :: int

text \<open>The second program of the repository has the same integrator without a trail.\<close>

record 'a LorenzAttractor =
  att_sigma :: 'a
  att_rho :: 'a
  att_beta :: 'a
  att_dt :: 'a
  att_x :: 'a
  att_y :: 'a
  att_z :: 'a

datatype error = MakeSliceCapOutOfRange

text \<open>
  \<^verbatim>\<open>NewLorenzSystem\<close>: \<^verbatim>\<open>make([]Point3D, 0, maxTrail)\<close> panics at run time when the capacity
  is negative. The literals are the real numbers they denote.
\<close>

definition NewLorenzSystem :: "int \<Rightarrow> error + real LorenzSystem" where
  "NewLorenzSystem maxTrail =
     (if maxTrail < 0 then Inl MakeSliceCapOutOfRange
      else Inr \<lparr> sigma = 10, rho = 28, beta = 8 / 3, dt = 1 / 100,
                 sys_x = 1, sys_y = 1, sys_z = 1,
                 trail = [], maxTrailLength = maxTrail \<rparr>)"

text \<open>
  \<^verbatim>\<open>Step\<close> mutates the receiver and returns the new point; the model returns both. The
  assignments are kept in the order of the source. \<^verbatim>\<open>l.trail[1:]\<close> on a non-empty slice
  is \<open>tl\<close>.
\<close>

definition Step :: "'a::{plus,minus,times} LorenzSystem \<Rightarrow> 'a Point3D \<times> 'a LorenzSystem" where
  "Step l =
     (let dx = sigma l * (sys_y l - sys_x l);
          dy = sys_x l * (rho l - sys_z l) - sys_y l;
          dz = sys_x l * sys_y l - beta l * sys_z l;
          l = l\<lparr>sys_x := sys_x l + dx * dt l\<rparr>;
          l = l\<lparr>sys_y := sys_y l + dy * dt l\<rparr>;
          l = l\<lparr>sys_z := sys_z l + dz * dt l\<rparr>;
          point = \<lparr>X = sys_x l, Y = sys_y l, Z = sys_z l\<rparr>;
          l = l\<lparr>trail := trail l @ [point]\<rparr>;
          l = (if int (length (trail l)) > maxTrailLength l
               then l\<lparr>trail := tl (trail l)\<rparr> else l)
      in (point, l))"

definition GetTrail :: "'a LorenzSystem \<Rightarrow> 'a Point3D list" where
  "GetTrail l = trail l"

definition NewLorenzAttractor :: "real LorenzAttractor" where
  "NewLorenzAttractor =
     \<lparr> att_sigma = 10, att_rho = 28, att_beta = 8 / 3, att_dt = 1 / 100,
       att_x = 1, att_y = 1, att_z = 1 \<rparr>"

definition NextPoint ::
  "'a::{plus,minus,times} LorenzAttractor \<Rightarrow> 'a Point3D \<times> 'a LorenzAttractor" where
  "NextPoint l =
     (let dx = att_sigma l * (att_y l - att_x l);
          dy = att_x l * (att_rho l - att_z l) - att_y l;
          dz = att_x l * att_y l - att_beta l * att_z l;
          l = l\<lparr>att_x := att_x l + dx * att_dt l\<rparr>;
          l = l\<lparr>att_y := att_y l + dy * att_dt l\<rparr>;
          l = l\<lparr>att_z := att_z l + dz * att_dt l\<rparr>
      in (\<lparr>X = att_x l, Y = att_y l, Z = att_z l\<rparr>, l))"

text \<open>
  The callers run \<^verbatim>\<open>for i := 0; i < n; i++ { lorenz.Step() }\<close>. \<open>steps n l\<close> is the system
  after these \<open>n\<close> calls and \<open>points n l\<close> the points the calls returned, in order.
\<close>

fun steps :: "nat \<Rightarrow> 'a::{plus,minus,times} LorenzSystem \<Rightarrow> 'a LorenzSystem" where
  "steps 0 l = l"
| "steps (Suc n) l = steps n (snd (Step l))"

fun points :: "nat \<Rightarrow> 'a::{plus,minus,times} LorenzSystem \<Rightarrow> 'a Point3D list" where
  "points 0 l = []"
| "points (Suc n) l = fst (Step l) # points n (snd (Step l))"

section \<open>Machine integers and conversions\<close>

text \<open>
  Go's \<^verbatim>\<open>int\<close> is taken as 64 bits wide (amd64, arm64). Signed arithmetic wraps around
  silently; \<open>w64\<close> is that wrap-around, and it is written at every \<open>+\<close>, \<open>-\<close> and \<open>*\<close> of
  the drawing code. A Go \<^verbatim>\<open>int\<close> is an integer \<open>i\<close> with \<open>int64 i\<close>.
\<close>

definition w64 :: "int \<Rightarrow> int" where
  "w64 i = (i + 2 ^ 63) mod 2 ^ 64 - 2 ^ 63"

definition int64 :: "int \<Rightarrow> bool" where
  "int64 i = (- (2 ^ 63) \<le> i \<and> i < 2 ^ 63)"

definition abs_go :: "int \<Rightarrow> int" where
  "abs_go x = (if x < 0 then w64 (- x) else x)"

text \<open>
  \<^verbatim>\<open>float64\<close> values outside the integrator are the real numbers they denote (no rounding,
  no NaN, no infinity). The conversions \<^verbatim>\<open>int(f)\<close> and \<^verbatim>\<open>uint8(f)\<close> drop the fraction.
  For a value that the target type cannot hold Go leaves the result to the implementation;
  the model takes what amd64 gives: \<open>- 2 ^ 63\<close> for \<^verbatim>\<open>int\<close>, and the low eight bits of that
  conversion for \<^verbatim>\<open>uint8\<close>.
\<close>

type_synonym uint8 = "8 word"

definition trunc_go :: "real \<Rightarrow> int" where
  "trunc_go f = (if f < 0 then \<lceil>f\<rceil> else \<lfloor>f\<rfloor>)"

definition int_of_float64 :: "real \<Rightarrow> int" where
  "int_of_float64 f = (if int64 (trunc_go f) then trunc_go f else - (2 ^ 63))"

definition uint8_of_float64 :: "real \<Rightarrow> uint8" where
  "uint8_of_float64 f = word_of_int (int_of_float64 f)"

section \<open>The projector\<close>

definition Project3DTo2D :: "real Point3D \<Rightarrow> int \<Rightarrow> int \<Rightarrow> real \<Rightarrow> real \<Rightarrow> int \<times> int" where
  "Project3DTo2D p width height rotationX rotationY =
     (let scaleX = real_of_int width / 50;
          scaleZ = real_of_int height / 60;
          centerX = real_of_int width / 2;
          centerZ = real_of_int height * (8 / 10);
          projX = X p * scaleX + centerX;
          projZ = centerZ - Z p * scaleZ
      in (int_of_float64 projX, int_of_float64 projZ))"

section \<open>The pixel buffer\<close>

text \<open>
  \<^verbatim>\<open>image.Paletted\<close> belongs to Go's standard library. The program uses four of its
  operations: \<^verbatim>\<open>image.Rect\<close>, \<^verbatim>\<open>image.NewPaletted\<close>, \<^verbatim>\<open>Bounds().Dx()\<close> / \<^verbatim>\<open>Dy()\<close> and
  \<^verbatim>\<open>SetColorIndex\<close>. They are modelled after the library's documentation: \<^verbatim>\<open>Rect\<close> swaps
  its coordinates into a well-formed rectangle, a new image has every pixel at index 0, and
  \<^verbatim>\<open>SetColorIndex\<close> ignores a point outside the rectangle. The pixel store is a function
  from coordinates to indices; allocation is assumed to succeed.

  The field \<open>writes\<close> is not in the library: it records, in program order, every store that
  \<open>SetColorIndex\<close> performs, so that statements about which pixels a primitive writes, and
  how often, can be made. Nothing reads it.
\<close>

record Rectangle =
  MinX :: int
  MinY :: int
  MaxX :: int
  MaxY :: int

definition Rect_go :: "int \<Rightarrow> int \<Rightarrow> int \<Rightarrow> int \<Rightarrow> Rectangle" where
  "Rect_go x0 y0 x1 y1 =
     (let (x0, x1) = (if x0 > x1 then (x1, x0) else (x0, x1));
          (y0, y1) = (if y0 > y1 then (y1, y0) else (y0, y1))
      in \<lparr> MinX = x0, MinY = y0, MaxX = x1, MaxY = y1 \<rparr>)"

definition Dx :: "Rectangle \<Rightarrow> int" where
  "Dx r = w64 (MaxX r - MinX r)"

definition Dy :: "Rectangle \<Rightarrow> int" where
  "Dy r = w64 (MaxY r - MinY r)"

definition In :: "int \<times> int \<Rightarrow> Rectangle \<Rightarrow> bool" where
  "In p r = (MinX r \<le> fst p \<and> fst p < MaxX r \<and> MinY r \<le> snd p \<and> snd p < MaxY r)"

type_synonym RGBA = "uint8 \<times> uint8 \<times> uint8 \<times> uint8"

record Paletted =
  Pix :: "int \<times> int \<Rightarrow> uint8"
  Rect :: Rectangle
  Palette :: "RGBA list"
  writes :: "(int \<times> int \<times> uint8) list"

definition NewPaletted :: "Rectangle \<Rightarrow> RGBA list \<Rightarrow> Paletted" where
  "NewPaletted r p = \<lparr> Pix = (\<lambda>_. 0), Rect = r, Palette = p, writes = [] \<rparr>"

definition Bounds :: "Paletted \<Rightarrow> Rectangle" where
  "Bounds p = Rect p"

definition SetColorIndex :: "Paletted \<Rightarrow> int \<Rightarrow> int \<Rightarrow> uint8 \<Rightarrow> Paletted" where
  "SetColorIndex p x y idx =
     (if \<not> In (x, y) (Rect p) then p
      else p\<lparr> Pix := (Pix p)((x, y) := idx), writes := writes p @ [(x, y, idx)] \<rparr>)"

definition ColorIndexAt :: "Paletted \<Rightarrow> int \<Rightarrow> int \<Rightarrow> uint8" where
  "ColorIndexAt p x y = (if \<not> In (x, y) (Rect p) then 0 else Pix p (x, y))"

section \<open>The rasterizer\<close>

text \<open>
  The loop of \<^verbatim>\<open>drawLine\<close> has no bound of its own (\<^verbatim>\<open>for { ... break ... }\<close>), and the
  loops of \<^verbatim>\<open>drawCircle\<close> count with a wrapping \<^verbatim>\<open>y++\<close>. They are partial functions:
  \<open>None\<close> is a call that never returns.
\<close>

partial_function (option) drawLine_loop ::
  "Paletted \<Rightarrow> int \<Rightarrow> int \<Rightarrow> int \<Rightarrow> int \<Rightarrow> int \<Rightarrow> int \<Rightarrow> int \<Rightarrow> int \<Rightarrow> int \<Rightarrow> uint8
     \<Rightarrow> Paletted option"
where
  "drawLine_loop img x1 y1 x2 y2 dx dy sx sy err colorIndex =
     (let img = (if x1 \<ge> 0 \<and> x1 < Dx (Bounds img) \<and> y1 \<ge> 0 \<and> y1 < Dy (Bounds img)
                 then SetColorIndex img x1 y1 colorIndex else img)
      in if x1 = x2 \<and> y1 = y2 then Some img
         else let e2 = w64 (2 * err);
                  (err, x1) = (if e2 > w64 (- dy) then (w64 (err - dy), w64 (x1 + sx))
                               else (err, x1));
                  (err, y1) = (if e2 < dx then (w64 (err + dx), w64 (y1 + sy))
                               else (err, y1))
              in drawLine_loop img x1 y1 x2 y2 dx dy sx sy err colorIndex)"

definition drawLine ::
  "Paletted \<Rightarrow> int \<Rightarrow> int \<Rightarrow> int \<Rightarrow> int \<Rightarrow> uint8 \<Rightarrow> Paletted option" where
  "drawLine img x1 y1 x2 y2 colorIndex =
     (let dx = abs_go (w64 (x2 - x1));
          dy = abs_go (w64 (y2 - y1));
          sx = (if x1 < x2 then 1 else - 1);
          sy = (if y1 < y2 then 1 else - 1);
          err = w64 (dx - dy)
      in drawLine_loop img x1 y1 x2 y2 dx dy sx sy err colorIndex)"

partial_function (option) drawCircle_x ::
  "Paletted \<Rightarrow> int \<Rightarrow> int \<Rightarrow> int \<Rightarrow> uint8 \<Rightarrow> int \<Rightarrow> int \<Rightarrow> Paletted option"
where
  "drawCircle_x img centerX centerY radius colorIndex y x =
     (if x \<le> radius
      then let img =
             (if w64 (w64 (x * x) + w64 (y * y)) \<le> w64 (radius * radius)
              then let px = w64 (centerX + x); py = w64 (centerY + y)
                   in if px \<ge> 0 \<and> px < Dx (Bounds img) \<and> py \<ge> 0 \<and> py < Dy (Bounds img)
                      then SetColorIndex img px py colorIndex else img
              else img)
           in drawCircle_x img centerX centerY radius colorIndex y (w64 (x + 1))
      else Some img)"

partial_function (option) drawCircle_y ::
  "Paletted \<Rightarrow> int \<Rightarrow> int \<Rightarrow> int \<Rightarrow> uint8 \<Rightarrow> int \<Rightarrow> Paletted option"
where
  "drawCircle_y img centerX centerY radius colorIndex y =
     (if y \<le> radius
      then drawCircle_x img centerX centerY radius colorIndex y (w64 (- radius)) \<bind>
             (\<lambda>img. drawCircle_y img centerX centerY radius colorIndex (w64 (y + 1)))
      else Some img)"

definition drawCircle ::
  "Paletted \<Rightarrow> int \<Rightarrow> int \<Rightarrow> int \<Rightarrow> uint8 \<Rightarrow> Paletted option" where
  "drawCircle img centerX centerY radius colorIndex =
     drawCircle_y img centerX centerY radius colorIndex (w64 (- radius))"

declare drawLine_loop.simps [code] drawCircle_x.simps [code] drawCircle_y.simps [code]

text \<open>\<^verbatim>\<open>for i, v := range xs\<close> visits the elements with their indices.\<close>

definition range_go :: "'a list \<Rightarrow> (int \<times> 'a) list" where
  "range_go xs = zip (map int [0..<length xs]) xs"

definition pattern :: "char \<Rightarrow> bool list list" where
  "pattern c =
     (if c = CHR ''L'' then
        [[True, False, False],
         [True, False, False],
         [True, False, False],
         [True, False, False],
         [True, True, True]]
      else if c = CHR ''o'' then
        [[False, True, False],
         [True, False, True],
         [True, False, True],
         [True, False, True],
         [False, True, False]]
      else if c = CHR ''r'' then
        [[False, False, False],
         [True, False, False],
         [True, True, False],
         [True, False, False],
         [True, False, False]]
      else if c = CHR ''e'' then
        [[False, True, False],
         [True, False, True],
         [True, True, True],
         [True, False, False],
         [False, True, True]]
      else if c = CHR ''n'' then
        [[False, False, False],
         [True, True, False],
         [True, False, True],
         [True, False, True],
         [True, False, True]]
      else if c = CHR ''z'' then
        [[False, False, False],
         [True, True, True],
         [False, False, True],
         [False, True, False],
         [True, True, True]]
      else if c = CHR '' '' then
        [[False, False, False],
         [False, False, False],
         [False, False, False],
         [False, False, False],
         [False, False, False]]
      else
        [[False, False, False],
         [False, False, False],
         [False, True, False],
         [False, False, False],
         [False, False, False]])"

definition drawChar :: "Paletted \<Rightarrow> int \<Rightarrow> int \<Rightarrow> char \<Rightarrow> uint8 \<Rightarrow> Paletted" where
  "drawChar img x y c colorIndex =
     fold (\<lambda>(row, line) img.
        fold (\<lambda>(col, pixel) img.
           if pixel
           then let px = w64 (x + col); py = w64 (y + row)
                in if px \<ge> 0 \<and> px < Dx (Bounds img) \<and> py \<ge> 0 \<and> py < Dy (Bounds img)
                   then SetColorIndex img px py colorIndex else img
           else img) (range_go line) img) (range_go (pattern c)) img"

text \<open>The texts drawn are ASCII, so the byte index of \<^verbatim>\<open>range text\<close> is the position.\<close>

definition drawText :: "Paletted \<Rightarrow> int \<Rightarrow> int \<Rightarrow> string \<Rightarrow> uint8 \<Rightarrow> Paletted" where
  "drawText img x y text colorIndex =
     fold (\<lambda>(i, c) img. drawChar img (w64 (x + w64 (i * 6))) y c colorIndex) (range_go text) img"

section \<open>The frame builder\<close>

text \<open>\<^verbatim>\<open>fmt.Sprintf("%d", i)\<close>: the decimal digits, after a minus sign for a negative number.\<close>

fun digits :: "nat \<Rightarrow> string" where
  "digits n = (if n < 10 then [char_of (48 + n)]
               else digits (n div 10) @ [char_of (48 + n mod 10)])"

definition Sprintf_d :: "int \<Rightarrow> string" where
  "Sprintf_d i = (if i < 0 then CHR ''-'' # digits (nat (- i)) else digits (nat i))"

definition make_palette :: "RGBA list" where
  "make_palette =
     map (\<lambda>i. if i = 0 then (0, 0, 0, 255)
              else let t = real i / 255;
                       r = uint8_of_float64 (sin (t * pi * 2) * 127 + 128);
                       g = uint8_of_float64 (sin (t * pi * 2 + pi * 2 / 3) * 127 + 128);
                       b = uint8_of_float64 (sin (t * pi * 2 + pi * 4 / 3) * 127 + 128)
                   in (r, g, b, 255)) [0..<256]"

text \<open>
  Lines 129 and 130 of \<^verbatim>\<open>lorenz.go\<close>: the colour index of the segment that ends at trail
  position \<open>i\<close>, in a trail of \<open>n\<close> points. \<open>intensity\<close> is the value before the conversion.
\<close>

definition intensity :: "int \<Rightarrow> int \<Rightarrow> real" where
  "intensity i n = real_of_int i / real_of_int n"

definition trailColorIndex :: "int \<Rightarrow> int \<Rightarrow> uint8" where
  "trailColorIndex i n = uint8_of_float64 (intensity i n * 254 + 1)"

fun draw_trail ::
  "Paletted \<Rightarrow> real Point3D list \<Rightarrow> int \<Rightarrow> int \<Rightarrow> real \<Rightarrow> real \<Rightarrow> int list \<Rightarrow> Paletted option"
where
  "draw_trail img tr width height rotationX rotationY [] = Some img"
| "draw_trail img tr width height rotationX rotationY (i # is) =
     (let (x1, y1) = Project3DTo2D (tr ! nat (i - 1)) width height rotationX rotationY;
          (x2, y2) = Project3DTo2D (tr ! nat i) width height rotationX rotationY;
          colorIndex = trailColorIndex i (int (length tr))
      in drawLine img x1 y1 x2 y2 colorIndex \<bind>
           (\<lambda>img. draw_trail img tr width height rotationX rotationY is))"

text \<open>
  \<open>CreateFrame\<close>. The two filling loops and the loop over the trail count upwards below a
  bound, so they run over the index lists \<open>[0..height - 1]\<close>, \<open>[0..width - 1]\<close> and
  \<open>[1..len - 1]\<close>. The local variable \<^verbatim>\<open>trail\<close> is called \<open>tr\<close>. The result is \<open>None\<close>
  when one of the lines drawn never ends.
\<close>

definition CreateFrame ::
  "real LorenzSystem \<Rightarrow> int \<Rightarrow> int \<Rightarrow> real \<Rightarrow> real \<Rightarrow> int \<Rightarrow> Paletted option" where
  "CreateFrame lorenz width height rotationX rotationY frameNum =
     (let palette = make_palette;
          img = NewPaletted (Rect_go 0 0 width height) palette;
          img = fold (\<lambda>y img. fold (\<lambda>x img. SetColorIndex img x y 0) [0..width - 1] img)
                  [0..height - 1] img;
          tr = GetTrail lorenz
      in if length tr < 2 then Some img
         else draw_trail img tr width height rotationX rotationY [1..int (length tr) - 1] \<bind>
           (\<lambda>img.
              (if length tr > 0
               then let current = tr ! (length tr - 1);
                        (x, y) = Project3DTo2D current width height rotationX rotationY
                    in drawCircle img x y 3 255
               else Some img) \<bind>
           (\<lambda>img.
              let img = drawText img 10 20 (''Frame: '' @ Sprintf_d frameNum) 200;
                  img = drawText img 10 35 ''Lorenz Attractor Animation'' 150
              in Some img)))"

section \<open>Properties of the integrator\<close>

subsection \<open>One step\<close>

lemma Step_trail:
  "trail (snd (Step l)) =
     (if int (length (trail l)) + 1 > maxTrailLength l
      then tl (trail l @ [fst (Step l)]) else trail l @ [fst (Step l)])"
  by (simp add: Step_def Let_def)

lemma Step_maxTrailLength: "maxTrailLength (snd (Step l)) = maxTrailLength l"
  by (simp add: Step_def Let_def)

lemma steps_maxTrailLength: "maxTrailLength (steps n l) = maxTrailLength l"
  by (induction n arbitrary: l) (simp_all add: Step_maxTrailLength)

lemma Step_trail_drop:
  assumes "int (length (trail l)) \<le> maxTrailLength l"
  shows "trail (snd (Step l)) =
           drop (length (trail l) + 1 - nat (maxTrailLength l)) (trail l @ [fst (Step l)])"
proof (cases "int (length (trail l)) + 1 > maxTrailLength l")
  case True
  with assms have "length (trail l) + 1 - nat (maxTrailLength l) = 1" by linarith
  moreover have "tl (trail l @ [fst (Step l)]) = drop 1 (trail l @ [fst (Step l)])"
    by (simp only: One_nat_def drop_Suc drop_0)
  ultimately show ?thesis using True by (simp only: Step_trail if_True)
next
  case False
  then have "length (trail l) + 1 - nat (maxTrailLength l) = 0" by linarith
  with False show ?thesis by (simp only: Step_trail if_False drop_0)
qed

lemma Step_trail_length:
  assumes "int (length (trail l)) \<le> maxTrailLength l"
  shows "int (length (trail (snd (Step l)))) \<le> maxTrailLength l"
  using assms by (simp add: Step_trail)

lemma drop_append_short: "k \<le> length xs \<Longrightarrow> drop k (xs @ ys) = drop k xs @ ys"
  by simp

lemma steps_trail_drop:
  assumes "int (length (trail l)) \<le> maxTrailLength l"
  shows "trail (steps n l) =
           drop (length (trail l) + n - nat (maxTrailLength l)) (trail l @ points n l)"
  using assms
proof (induction n arbitrary: l)
  case 0
  then have "length (trail l) - nat (maxTrailLength l) = 0" by linarith
  then show ?case by simp
next
  case (Suc n)
  define l' where "l' = snd (Step l)"
  define p where "p = fst (Step l)"
  define N where "N = nat (maxTrailLength l)"
  define t where "t = trail l"
  define k where "k = length t + 1 - N"
  define pts where "pts = points n l'"
  have tN: "length t \<le> N"
    using Suc.prems by (simp add: t_def N_def)
  have N': "nat (maxTrailLength l') = N"
    by (simp add: l'_def N_def Step_maxTrailLength)
  have len: "int (length (trail l')) \<le> maxTrailLength l'"
    using Suc.prems by (simp add: l'_def Step_trail_length Step_maxTrailLength)
  have tr: "trail l' = drop k (t @ [p])"
    using Step_trail_drop [OF Suc.prems] by (simp only: l'_def p_def N_def t_def k_def)
  have k_le: "k \<le> length (t @ [p])"
    by (simp add: k_def)
  have len': "length (trail l') = length t + 1 - k"
    by (simp add: tr)
  have "trail (steps (Suc n) l) = trail (steps n l')"
    by (simp add: l'_def)
  also have "\<dots> = drop (length (trail l') + n - N) (trail l' @ pts)"
    using Suc.IH [OF len] by (simp only: N' pts_def)
  also have "trail l' @ pts = drop k ((t @ [p]) @ pts)"
    using drop_append_short [OF k_le, of pts] by (simp only: tr)
  also have "drop (length (trail l') + n - N) (drop k ((t @ [p]) @ pts)) =
               drop (length (trail l') + n - N + k) ((t @ [p]) @ pts)"
    by (simp only: drop_drop)
  also have "length (trail l') + n - N + k = length t + Suc n - N"
    using tN by (simp add: len' k_def)
  also have "(t @ [p]) @ pts = t @ points (Suc n) l"
    by (simp add: p_def pts_def l'_def)
  finally show ?case
    by (simp only: t_def N_def)
qed

lemma length_points: "length (points n l) = n"
  by (induction n arbitrary: l) simp_all


lemma fresh_trail_steps:
  assumes "trail l = []" and "0 \<le> maxTrailLength l"
  shows "trail (steps n l) = drop (n - nat (maxTrailLength l)) (points n l)"
  using steps_trail_drop [of l n] assms by simp

section \<open>The claims about the integrator\<close>

text \<open>
  C1. One integrator step computes \<open>dx = sigma * (y - x)\<close>, \<open>dy = x * (rho - z) - y\<close>,
  \<open>dz = x * y - beta * z\<close> from the state before the step, moves the state to
  \<open>(x + dx * dt, y + dy * dt, z + dz * dt)\<close> and returns exactly this point, in \<open>Step\<close> as
  in \<open>NextPoint\<close>. The three coordinates are updated simultaneously: the right-hand sides
  mention the old state only.
\<close>

theorem C1_forward_euler:
  "fst (Step l) =
     \<lparr> X = sys_x l + sigma l * (sys_y l - sys_x l) * dt l,
       Y = sys_y l + (sys_x l * (rho l - sys_z l) - sys_y l) * dt l,
       Z = sys_z l + (sys_x l * sys_y l - beta l * sys_z l) * dt l \<rparr>
   \<and> sys_x (snd (Step l)) = sys_x l + sigma l * (sys_y l - sys_x l) * dt l
   \<and> sys_y (snd (Step l)) = sys_y l + (sys_x l * (rho l - sys_z l) - sys_y l) * dt l
   \<and> sys_z (snd (Step l)) = sys_z l + (sys_x l * sys_y l - beta l * sys_z l) * dt l
   \<and> fst (NextPoint a) =
     \<lparr> X = att_x a + att_sigma a * (att_y a - att_x a) * att_dt a,
       Y = att_y a + (att_x a * (att_rho a - att_z a) - att_y a) * att_dt a,
       Z = att_z a + (att_x a * att_y a - att_beta a * att_z a) * att_dt a \<rparr>
   \<and> att_x (snd (NextPoint a)) = att_x a + att_sigma a * (att_y a - att_x a) * att_dt a
   \<and> att_y (snd (NextPoint a)) =
       att_y a + (att_x a * (att_rho a - att_z a) - att_y a) * att_dt a
   \<and> att_z (snd (NextPoint a)) = att_z a + (att_x a * att_y a - att_beta a * att_z a) * att_dt a"
  by (simp add: Step_def NextPoint_def Let_def)

text \<open>
  C2. For every capacity \<open>N \<ge> 0\<close> the constructor succeeds, and after \<open>n\<close> calls of \<open>Step\<close>
  on the fresh system the trail has length \<open>min n N\<close>; in particular it never exceeds \<open>N\<close>.
\<close>

theorem C2_trail_length:
  assumes "0 \<le> N"
  shows "\<exists>l. NewLorenzSystem N = Inr l
           \<and> int (length (GetTrail (steps n l))) = min (int n) N
           \<and> int (length (GetTrail (steps n l))) \<le> N"
proof -
  obtain l where l: "NewLorenzSystem N = Inr l" "trail l = []" "maxTrailLength l = N"
    using assms by (simp add: NewLorenzSystem_def)
  have "trail (steps n l) = drop (n - nat N) (points n l)"
    using fresh_trail_steps [of l n] l assms by simp
  then have "length (trail (steps n l)) = n - (n - nat N)"
    by (simp add: length_points)
  then have "int (length (trail (steps n l))) = min (int n) N"
    using assms by linarith
  then show ?thesis
    using l(1) by (simp add: GetTrail_def)
qed

theorem C2_trail_length_witness:
  "(0::int) \<le> 3 \<and> (\<exists>l. NewLorenzSystem 3 = Inr l
      \<and> int (length (GetTrail (steps 5 l))) = min (int 5) 3
      \<and> int (length (GetTrail (steps 5 l))) \<le> 3)"
  using C2_trail_length [of 3 5] by simp

text \<open>
  C3. Eviction is first in, first out. For a capacity \<open>N \<ge> 1\<close> and \<open>n > N\<close> calls, the trail
  is the list of the last \<open>N\<close> points generated, oldest first, and its first element is
  the point generated by call number \<open>n - N + 1\<close> (index \<open>n - N\<close> counting from zero).
\<close>

theorem C3_trail_fifo:
  assumes "1 \<le> N" and "N < int n"
  shows "\<exists>l. NewLorenzSystem N = Inr l
           \<and> GetTrail (steps n l) = drop (n - nat N) (points n l)
           \<and> length (GetTrail (steps n l)) = nat N
           \<and> hd (GetTrail (steps n l)) = points n l ! (n - nat N)"
proof -
  obtain l where l: "NewLorenzSystem N = Inr l" "trail l = []" "maxTrailLength l = N"
    using assms by (simp add: NewLorenzSystem_def)
  have tr: "trail (steps n l) = drop (n - nat N) (points n l)"
    using fresh_trail_steps [of l n] l assms by simp
  have lt: "n - nat N < length (points n l)"
    using assms by (simp add: length_points)
  have "length (trail (steps n l)) = nat N"
    using assms by (simp add: tr length_points)
  moreover have "hd (trail (steps n l)) = points n l ! (n - nat N)"
    using lt by (simp add: tr hd_drop_conv_nth)
  ultimately show ?thesis
    using l(1) tr by (simp add: GetTrail_def)
qed

theorem C3_trail_fifo_witness:
  "(1::int) \<le> 2 \<and> (2::int) < int 4 \<and> (\<exists>l. NewLorenzSystem 2 = Inr l
      \<and> GetTrail (steps 4 l) = drop (4 - nat 2) (points 4 l)
      \<and> length (GetTrail (steps 4 l)) = nat 2
      \<and> hd (GetTrail (steps 4 l)) = points 4 l ! (4 - nat 2))"
  using C3_trail_fifo [of 2 4] by simp

text \<open>
  C10. After a call of \<open>Step\<close>, the point returned is the position now stored in the system,
  and when the capacity is at least 1 the trail is not empty and its last element is that
  point. This holds from every state, whatever the trail held before.
\<close>

theorem C10_step_agreement:
  "fst (Step l) = \<lparr> X = sys_x (snd (Step l)), Y = sys_y (snd (Step l)), Z = sys_z (snd (Step l)) \<rparr>
   \<and> (1 \<le> maxTrailLength l \<longrightarrow>
        GetTrail (snd (Step l)) \<noteq> [] \<and> last (GetTrail (snd (Step l))) = fst (Step l))"
proof -
  have "fst (Step l) =
          \<lparr> X = sys_x (snd (Step l)), Y = sys_y (snd (Step l)), Z = sys_z (snd (Step l)) \<rparr>"
    by (simp add: Step_def Let_def)
  moreover have "trail (snd (Step l)) \<noteq> [] \<and> last (trail (snd (Step l))) = fst (Step l)"
    if N: "1 \<le> maxTrailLength l"
  proof (cases "trail l")
    case Nil
    with N show ?thesis by (simp add: Step_trail)
  next
    case (Cons q qs)
    then show ?thesis by (simp add: Step_trail)
  qed
  ultimately show ?thesis
    by (simp add: GetTrail_def)
qed

theorem C10_step_agreement_witness:
  "(1::int) \<le> maxTrailLength
       \<lparr> sigma = 10::real, rho = 28, beta = 8 / 3, dt = 1 / 100, sys_x = 1, sys_y = 1, sys_z = 1,
         trail = [], maxTrailLength = 1 \<rparr>
   \<and> GetTrail (snd (Step
       \<lparr> sigma = 10::real, rho = 28, beta = 8 / 3, dt = 1 / 100, sys_x = 1, sys_y = 1, sys_z = 1,
         trail = [], maxTrailLength = 1 \<rparr>)) \<noteq> []
   \<and> last (GetTrail (snd (Step
       \<lparr> sigma = 10::real, rho = 28, beta = 8 / 3, dt = 1 / 100, sys_x = 1, sys_y = 1, sys_z = 1,
         trail = [], maxTrailLength = 1 \<rparr>)))
     = fst (Step
       \<lparr> sigma = 10::real, rho = 28, beta = 8 / 3, dt = 1 / 100, sys_x = 1, sys_y = 1, sys_z = 1,
         trail = [], maxTrailLength = 1 \<rparr>)"
  using C10_step_agreement
    [of "\<lparr> sigma = 10::real, rho = 28, beta = 8 / 3, dt = 1 / 100, sys_x = 1, sys_y = 1,
           sys_z = 1, trail = [], maxTrailLength = 1 \<rparr>"]
  by simp

end
